theory Spec2Isabelle
  imports Main "HOL-Library.Sublist"
begin

section \<open>Python values, exceptions and text\<close>

text \<open>
  A Python \<^verbatim>\<open>str\<close> is modelled by its UTF-8 bytes, a \<^typ>\<open>string\<close>. The ASCII text of
  the sources is written as it stands; the pictographs that the \<^verbatim>\<open>print\<close> calls put in
  front of their messages are the byte sequences below.
\<close>

definition rocket :: string where "rocket = [CHR 0xF0, CHR 0x9F, CHR 0x9A, CHR 0x80]"
definition check_mark :: string where "check_mark = [CHR 0xE2, CHR 0x9C, CHR 0x93]"
definition white_check_mark :: string where "white_check_mark = [CHR 0xE2, CHR 0x9C, CHR 0x85]"
definition cross_mark :: string where "cross_mark = [CHR 0xE2, CHR 0x9D, CHR 0x8C]"
definition warning_sign :: string where
  "warning_sign = [CHR 0xE2, CHR 0x9A, CHR 0xA0, CHR 0xEF, CHR 0xB8, CHR 0x8F]"
definition waving_hand :: string where "waving_hand = [CHR 0xF0, CHR 0x9F, CHR 0x91, CHR 0x8B]"
definition light_bulb :: string where "light_bulb = [CHR 0xF0, CHR 0x9F, CHR 0x92, CHR 0xA1]"
definition bar_chart :: string where "bar_chart = [CHR 0xF0, CHR 0x9F, CHR 0x93, CHR 0x8A]"
definition clipboard :: string where "clipboard = [CHR 0xF0, CHR 0x9F, CHR 0x93, CHR 0x8B]"
definition magnifier :: string where "magnifier = [CHR 0xF0, CHR 0x9F, CHR 0x94, CHR 0x8D]"
definition wrench :: string where "wrench = [CHR 0xF0, CHR 0x9F, CHR 0x94, CHR 0xA7]"
definition robot :: string where "robot = [CHR 0xF0, CHR 0x9F, CHR 0xA4, CHR 0x96]"
definition test_tube :: string where "test_tube = [CHR 0xF0, CHR 0x9F, CHR 0xA7, CHR 0xAA]"
definition stethoscope :: string where "stethoscope = [CHR 0xF0, CHR 0x9F, CHR 0xA9, CHR 0xBA]"

text \<open>
  The exceptions the program raises, catches or lets through. \<open>ImportError\<close> stands for
  the class and its subclasses, \<open>OtherException cls msg\<close> for an instance of any other
  subclass of \<^verbatim>\<open>Exception\<close> (a database or language-model client error, say), and
  \<open>KeyboardInterrupt\<close> is the one exception here that is not an \<^verbatim>\<open>Exception\<close>.
\<close>

datatype exn =
    ValueError string
  | ImportError string
  | AttributeError string
  | KeyError string
  | TypeError string
  | ConnectionError string
  | EOFError
  | OtherException string string
  | KeyboardInterrupt

fun is_Exception :: "exn \<Rightarrow> bool" where
  "is_Exception KeyboardInterrupt = False"
| "is_Exception _ = True"

fun is_ImportError :: "exn \<Rightarrow> bool" where
  "is_ImportError (ImportError _) = True"
| "is_ImportError _ = False"

text \<open>\<^verbatim>\<open>str(e)\<close>: the message; a \<^verbatim>\<open>KeyError\<close> shows its key quoted.\<close>

fun str_of_exn :: "exn \<Rightarrow> string" where
  "str_of_exn (ValueError m) = m"
| "str_of_exn (ImportError m) = m"
| "str_of_exn (AttributeError m) = m"
| "str_of_exn (KeyError k) = [CHR 0x27] @ k @ [CHR 0x27]"
| "str_of_exn (TypeError m) = m"
| "str_of_exn (ConnectionError m) = m"
| "str_of_exn EOFError = []"
| "str_of_exn (OtherException c m) = m"
| "str_of_exn KeyboardInterrupt = []"

text \<open>
  The values that cross the program's hands without being looked into: query results
  (a list of records) and chain outputs (a dict).
\<close>

datatype pyval =
    PNone
  | PStr string
  | PList "pyval list"
  | PDict "(string \<times> pyval) list"

text \<open>\<^verbatim>\<open>v[k]\<close> for a string key.\<close>

fun subscript :: "pyval \<Rightarrow> string \<Rightarrow> exn + pyval" where
  "subscript (PDict d) k = (case map_of d k of None \<Rightarrow> Inl (KeyError k) | Some v \<Rightarrow> Inr v)"
| "subscript (PStr s) k = Inl (TypeError ''string indices must be integers'')"
| "subscript (PList l) k = Inl (TypeError ''list indices must be integers or slices, not str'')"
| "subscript PNone k = Inl (TypeError ([CHR 0x27] @ ''NoneType'' @ [CHR 0x27] @ '' object is not subscriptable''))"

subsection \<open>\<^verbatim>\<open>str.strip()\<close>\<close>

text \<open>
  Without an argument \<^verbatim>\<open>strip\<close> removes the leading and trailing characters for
  which \<^verbatim>\<open>str.isspace\<close> holds. These are their UTF-8 encodings: U+0009 to U+000D,
  U+001C to U+0020, U+0085, U+00A0, U+1680, U+2000 to U+200A, U+2028, U+2029, U+202F,
  U+205F and U+3000.
\<close>

definition whitespace :: "string list" where
  "whitespace =
    [[CHR 0x09], [CHR 0x0A], [CHR 0x0B], [CHR 0x0C], [CHR 0x0D],
     [CHR 0x1C], [CHR 0x1D], [CHR 0x1E], [CHR 0x1F], [CHR 0x20],
     [CHR 0xC2, CHR 0x85], [CHR 0xC2, CHR 0xA0],
     [CHR 0xE1, CHR 0x9A, CHR 0x80],
     [CHR 0xE2, CHR 0x80, CHR 0x80], [CHR 0xE2, CHR 0x80, CHR 0x81],
     [CHR 0xE2, CHR 0x80, CHR 0x82], [CHR 0xE2, CHR 0x80, CHR 0x83],
     [CHR 0xE2, CHR 0x80, CHR 0x84], [CHR 0xE2, CHR 0x80, CHR 0x85],
     [CHR 0xE2, CHR 0x80, CHR 0x86], [CHR 0xE2, CHR 0x80, CHR 0x87],
     [CHR 0xE2, CHR 0x80, CHR 0x88], [CHR 0xE2, CHR 0x80, CHR 0x89],
     [CHR 0xE2, CHR 0x80, CHR 0x8A],
     [CHR 0xE2, CHR 0x80, CHR 0xA8], [CHR 0xE2, CHR 0x80, CHR 0xA9],
     [CHR 0xE2, CHR 0x80, CHR 0xAF], [CHR 0xE2, CHR 0x81, CHR 0x9F],
     [CHR 0xE3, CHR 0x80, CHR 0x80]]"

text \<open>The number of bytes of the whitespace character a text starts with, 0 when it starts with none.\<close>

definition leading_space :: "string \<Rightarrow> nat" where
  "leading_space s = (case find (\<lambda>w. prefix w s) whitespace of None \<Rightarrow> 0 | Some w \<Rightarrow> length w)"

definition trailing_space :: "string \<Rightarrow> nat" where
  "trailing_space s = (case find (\<lambda>w. suffix w s) whitespace of None \<Rightarrow> 0 | Some w \<Rightarrow> length w)"

function lstrip :: "string \<Rightarrow> string" where
  "lstrip s = (if leading_space s = 0 then s else lstrip (drop (leading_space s) s))"
  by pat_completeness auto

function rstrip :: "string \<Rightarrow> string" where
  "rstrip s = (if trailing_space s = 0 then s else rstrip (take (length s - trailing_space s) s))"
  by pat_completeness auto

termination lstrip
proof (relation "measure length")
  show "wf (measure length)" by simp
next
  fix s :: string
  assume "leading_space s \<noteq> 0"
  moreover have "leading_space [] = 0"
    by (simp add: leading_space_def whitespace_def)
  ultimately have "s \<noteq> []" by auto
  with \<open>leading_space s \<noteq> 0\<close> show "(drop (leading_space s) s, s) \<in> measure length" by simp
qed

termination rstrip
proof (relation "measure length")
  show "wf (measure length)" by simp
next
  fix s :: string
  assume "trailing_space s \<noteq> 0"
  moreover have "trailing_space [] = 0"
    by (simp add: trailing_space_def whitespace_def)
  ultimately have "s \<noteq> []" by auto
  with \<open>trailing_space s \<noteq> 0\<close> show "(take (length s - trailing_space s) s, s) \<in> measure length" by simp
qed

declare lstrip.simps [simp del] rstrip.simps [simp del]

definition strip :: "string \<Rightarrow> string" where
  "strip s = rstrip (lstrip s)"

subsection \<open>\<^verbatim>\<open>str.join\<close> and \<^verbatim>\<open>str.format\<close>\<close>


text \<open>A text of several lines, each closed by a newline.\<close>

definition lines_text :: "string list \<Rightarrow> string" where
  "lines_text ls = concat (map (\<lambda>l. l @ ''\<newline>'') ls)"


record PromptTemplate =
  input_variables :: "string list"
  template :: string


section \<open>The outside world\<close>

text \<open>
  The database connection and the language-model client are objects of external libraries.
  They are modelled by the arguments they were built from; what they do when called is an
  oracle of the environment below. (\<^verbatim>\<open>temperature=0.1\<close>, a float that no function of the
  repository reads, is left out of the client.)
\<close>

record Neo4jGraph =
  url :: "string option"
  username :: "string option"
  password :: "string option"
  database :: "string option"

record AzureChatOpenAI =
  azure_endpoint :: "string option"
  api_key :: "string option"
  azure_deployment :: "string option"
  api_version :: "string option"
  max_tokens :: nat

datatype package = langchain_neo4j | langchain_community

text \<open>A chain object, as \<^verbatim>\<open>GraphCypherQAChain.from_llm\<close> of the given package builds it.\<close>

record GraphCypherQAChain =
  from_package :: package
  chain_llm :: "AzureChatOpenAI option"
  chain_graph :: "Neo4jGraph option"
  verbose :: bool
  allow_dangerous_requests :: bool
  cypher_prompt :: "PromptTemplate option"
  qa_prompt :: "PromptTemplate option"
  return_intermediate_steps :: bool

text \<open>
  What the program does that can be seen from outside, in order: a \<^verbatim>\<open>print\<close> call (its
  line, as pieces of literal text and of values shown by \<^verbatim>\<open>str\<close>), a call of
  \<^verbatim>\<open>input\<close> with its prompt, an import of the chain class, a chain construction, and the
  calls that go over the network.
\<close>

datatype fragment = Lit string | Val pyval

datatype event =
    Print "fragment list"
  | Input string
  | Import package
  | FromLlm GraphCypherQAChain
  | Invoke GraphCypherQAChain string
  | LlmInvoke AzureChatOpenAI string
  | Query Neo4jGraph string

definition prt :: "string \<Rightarrow> event" where
  "prt s = Print [Lit s]"

text \<open>
  The environment: whether an import or a construction raises (\<open>None\<close>: it does not), what
  a chain, the model and the database answer or raise, the two schema accessors of the
  connection, and the interpreter's \<^verbatim>\<open>str.lower\<close> (a Unicode table).
\<close>

record env =
  import_GraphCypherQAChain :: "package \<Rightarrow> exn option"
  from_llm :: "GraphCypherQAChain \<Rightarrow> exn option"
  chain_invoke :: "GraphCypherQAChain \<Rightarrow> string \<Rightarrow> exn + pyval"
  llm_invoke :: "AzureChatOpenAI \<Rightarrow> string \<Rightarrow> exn + string"
  graph_query :: "Neo4jGraph \<Rightarrow> string \<Rightarrow> exn + pyval"
  graph_schema :: "Neo4jGraph \<Rightarrow> string"
  graph_get_schema :: "Neo4jGraph \<Rightarrow> string"
  str_lower :: "string \<Rightarrow> string"

text \<open>Prepending what was already printed to the outcome of the rest.\<close>

fun after :: "event list \<Rightarrow> event list \<times> 'a \<Rightarrow> event list \<times> 'a" where
  "after t (t', r) = (t @ t', r)"

section \<open>\<^verbatim>\<open>main.py\<close>: the class \<^verbatim>\<open>MedicalRAGSystem\<close>\<close>

text \<open>
  \<open>graph_qa_chain\<close> holds either a chain object of the library or the local function
  \<^verbatim>\<open>simple_graph_qa\<close>. The two fields that \<^verbatim>\<open>__init__\<close> sets to \<^verbatim>\<open>None\<close> and nothing ever
  assigns again carry the prefix \<open>rag_\<close>, their names being those of the fields of
  \<^verbatim>\<open>OptimizedMedicalChain\<close>.
\<close>

datatype qa_chain = LibraryChain GraphCypherQAChain | SimpleGraphQA

record MedicalRAGSystem =
  graph :: "Neo4jGraph option"
  llm :: "AzureChatOpenAI option"
  graph_qa_chain :: "qa_chain option"
  rag_optimized_chain :: "GraphCypherQAChain option"
  rag_optimized_chain_verbose :: "GraphCypherQAChain option"

definition MedicalRAGSystem_init :: MedicalRAGSystem where
  "MedicalRAGSystem_init =
     \<lparr>graph = None, llm = None, graph_qa_chain = None,
      rag_optimized_chain = None, rag_optimized_chain_verbose = None\<rparr>"

text \<open>The chain both library attempts of \<^verbatim>\<open>setup_rag_system\<close> ask for.\<close>

definition basic_chain :: "package \<Rightarrow> MedicalRAGSystem \<Rightarrow> GraphCypherQAChain" where
  "basic_chain p self =
     \<lparr>from_package = p, chain_llm = llm self, chain_graph = graph self, verbose = True,
      allow_dangerous_requests = True, cypher_prompt = None, qa_prompt = None,
      return_intermediate_steps = True\<rparr>"

text \<open>\<^verbatim>\<open>_setup_simple_graph_qa\<close>: stores the local function as the chain.\<close>

definition setup_simple_graph_qa :: "MedicalRAGSystem \<Rightarrow> event list \<times> MedicalRAGSystem \<times> exn option" where
  "setup_simple_graph_qa self =
     ([prt (check_mark @ '' Simple function-based Graph QA setup complete!'')],
      self\<lparr>graph_qa_chain := Some SimpleGraphQA\<rparr>, None)"

text \<open>
  \<^verbatim>\<open>setup_rag_system\<close>, in three pieces: the body of the outer \<^verbatim>\<open>try\<close>, the handler of
  \<^verbatim>\<open>ImportError\<close>, and the method. A method that assigns fields returns what it printed and
  did, the object as it left it, and the exception it raised, if any.
\<close>

definition setup_rag_try :: "env \<Rightarrow> MedicalRAGSystem \<Rightarrow> event list \<times> MedicalRAGSystem \<times> exn option" where
  "setup_rag_try w self =
     (case import_GraphCypherQAChain w langchain_neo4j of
        Some e \<Rightarrow> ([Import langchain_neo4j], self, Some e)
      | None \<Rightarrow>
          let c = basic_chain langchain_neo4j self;
              t = [Import langchain_neo4j,
                   prt ''Setting up knowledge graph RAG system with langchain_neo4j...'',
                   FromLlm c]
          in case from_llm w c of
               Some e \<Rightarrow> (t, self, Some e)
             | None \<Rightarrow>
                 (t @ [prt (check_mark @ '' Graph QA chain setup complete!'')],
                  self\<lparr>graph_qa_chain := Some (LibraryChain c)\<rparr>, None))"

definition setup_rag_community :: "env \<Rightarrow> MedicalRAGSystem \<Rightarrow> event list \<times> MedicalRAGSystem \<times> exn option" where
  "setup_rag_community w self =
     (let t0 = [prt ''langchain_neo4j GraphCypherQAChain not available, trying community version...'',
                Import langchain_community]
      in case import_GraphCypherQAChain w langchain_community of
           Some e \<Rightarrow> (t0, self, Some e)
         | None \<Rightarrow>
             let c = basic_chain langchain_community self; t1 = t0 @ [FromLlm c]
             in case from_llm w c of
                  None \<Rightarrow>
                    (t1 @ [prt (check_mark @ '' Community Graph QA chain setup complete!'')],
                     self\<lparr>graph_qa_chain := Some (LibraryChain c)\<rparr>, None)
                | Some e \<Rightarrow>
                    if is_Exception e then
                      after (t1 @ [prt (''Error with community version: '' @ str_of_exn e)])
                        (setup_simple_graph_qa self)
                    else (t1, self, Some e))"

definition setup_rag_system :: "env \<Rightarrow> MedicalRAGSystem \<Rightarrow> event list \<times> MedicalRAGSystem \<times> exn option" where
  "setup_rag_system w self =
     (if graph self = None \<or> llm self = None then
        ([], self, Some (ValueError ''Connections must be established first. Call setup_connections().''))
      else
        case setup_rag_try w self of
          (t, self', None) \<Rightarrow> (t, self', None)
        | (t, self', Some e) \<Rightarrow>
            if is_ImportError e then after t (setup_rag_community w self')
            else if is_Exception e then
              after (t @ [prt (''Unexpected error: '' @ str_of_exn e),
                          prt ''Setting up simple function-based approach...''])
                (setup_simple_graph_qa self')
            else (t, self', Some e))"

text \<open>
  \<^verbatim>\<open>simple_graph_qa\<close>, the function that \<^verbatim>\<open>_setup_simple_graph_qa\<close> defines. It reads the
  connections from the object when it is called. A function that assigns nothing returns
  what it printed and did, and its value or the exception it raised.
\<close>

definition simple_cypher_prompt :: "string \<Rightarrow> string \<Rightarrow> string" where
  "simple_cypher_prompt schema_info question =
     ''\<newline>'' @
     ''            Based on this Neo4j schema:\<newline>'' @
     ''            '' @ schema_info @ ''\<newline>'' @
     ''            \<newline>'' @
     ''            Generate a Cypher query to answer: '' @ question @ ''\<newline>'' @
     ''            \<newline>'' @
     ''            Return only the Cypher query, no explanation.\<newline>'' @
     ''            ''"

definition no_attribute :: "string \<Rightarrow> string \<Rightarrow> exn" where
  "no_attribute ty name =
     AttributeError ([CHR 0x27] @ ty @ [CHR 0x27] @ '' object has no attribute '' @
                     [CHR 0x27] @ name @ [CHR 0x27])"

definition simple_graph_qa :: "env \<Rightarrow> MedicalRAGSystem \<Rightarrow> string \<Rightarrow> event list \<times> (exn + pyval)" where
  "simple_graph_qa w self question =
     (case graph self of
        None \<Rightarrow> ([], Inl (no_attribute ''NoneType'' ''get_schema''))
      | Some g \<Rightarrow>
          let schema_info = graph_get_schema w g;
              cypher_prompt = simple_cypher_prompt schema_info question
          in case llm self of
               None \<Rightarrow> ([], Inl (no_attribute ''NoneType'' ''invoke''))
             | Some l \<Rightarrow>
                 (case llm_invoke w l cypher_prompt of
                    Inl e \<Rightarrow> ([LlmInvoke l cypher_prompt], Inl e)
                  | Inr content \<Rightarrow>
                      let cypher_query = strip content;
                          t = [LlmInvoke l cypher_prompt,
                               prt (''Generated Cypher: '' @ cypher_query),
                               Query g cypher_query]
                      in case graph_query w g cypher_query of
                           Inr result \<Rightarrow> (t, Inr result)
                         | Inl query_error \<Rightarrow>
                             if is_Exception query_error then
                               (t, Inr (PStr (''Query execution error: '' @ str_of_exn query_error)))
                             else (t, Inl query_error)))"

definition get_schema :: "env \<Rightarrow> MedicalRAGSystem \<Rightarrow> exn + string" where
  "get_schema w self =
     (case graph self of
        None \<Rightarrow> Inl (ValueError ''Graph connection not established. Call setup_connections() first.'')
      | Some g \<Rightarrow> Inr (graph_schema w g))"

text \<open>
  \<^verbatim>\<open>test_basic_query\<close> calls the method \<^verbatim>\<open>invoke\<close> of whatever \<open>graph_qa_chain\<close>
  holds; a Python function has no such attribute.
\<close>

definition test_basic_query :: "env \<Rightarrow> MedicalRAGSystem \<Rightarrow> string \<Rightarrow> event list \<times> (exn + pyval)" where
  "test_basic_query w self question =
     (case graph_qa_chain self of
        None \<Rightarrow> ([], Inl (ValueError ''RAG system not set up. Call setup_rag_system() first.''))
      | Some chain \<Rightarrow>
          let t = [prt (''Testing with question: '' @ question), prt (replicate 50 CHR ''-'')]
          in case chain of
               SimpleGraphQA \<Rightarrow> (t, Inl (no_attribute ''function'' ''invoke''))
             | LibraryChain c \<Rightarrow>
                 (case chain_invoke w c question of
                    Inl e \<Rightarrow> (t @ [Invoke c question], Inl e)
                  | Inr result \<Rightarrow>
                      (t @ [Invoke c question, Print [Lit ''Result:'', Lit '' '', Val result]],
                       Inr result)))"

section \<open>\<^verbatim>\<open>utils.py\<close>\<close>

subsection \<open>The prompt templates\<close>

text \<open>
  \<^verbatim>\<open>ADVANCED_CYPHER_TEMPLATE\<close>, cut at its two fields and at the four worked query patterns;
  every piece is the lines of the source in order.
\<close>

definition template_head :: string where
  "template_head = lines_text
    [''You are an expert Neo4j Cypher query generator for a medical knowledge graph.'',
     '''',
     ''DATABASE SCHEMA:'']"

definition template_structure :: string where
  \<open>template_structure = lines_text
    ['''',
     '''',
     ''MEDICAL KNOWLEDGE GRAPH STRUCTURE:'',
     ''- Nodes: Disease, Symptom, Treatment, DiseaseSymptomRelationship, DiseaseTreatmentRelationship'',
     ''- Properties: All nodes have "name" property containing the text value'',
     ''- Key Relationships:'',
     ''  * (DiseaseSymptomRelationship)-[:FOR_DISEASE]->(Disease)'',
     ''  * (DiseaseSymptomRelationship)-[:FOR_SYMPTOM]->(Symptom)'',
     ''  * (DiseaseTreatmentRelationship)-[:FOR_DISEASE]->(Disease)'',
     ''  * (DiseaseTreatmentRelationship)-[:FOR_TREATMENT]->(Treatment)'',
     '''',
     ''CRITICAL RULES:'',
     ''1. Use "name" property for all nodes, NOT "id" '',
     ''2. Use toLower() and CONTAINS for flexible matching'',
     ''3. Use collect() to group results'',
     ''4. Always add LIMIT for multiple results'',
     ''5. Follow the relationship pattern through intermediate nodes'',
     '''',
     ''QUERY PATTERNS:'',
     '''']\<close>

definition symptoms_pattern :: string where
  \<open>symptoms_pattern = lines_text
    [''For symptoms questions ("What are symptoms of X", "X symptoms", "signs of X"):'',
     ''MATCH (dsr:DiseaseSymptomRelationship)-[:FOR_DISEASE]->(d:Disease), '',
     ''      (dsr)-[:FOR_SYMPTOM]->(s:Symptom)'',
     ''WHERE toLower(d.name) CONTAINS toLower("condition_name")'',
     ''RETURN d.name as condition, collect(s.name) as symptoms'',
     ''LIMIT 5'']\<close>

definition treatment_pattern :: string where
  \<open>treatment_pattern = lines_text
    [''For treatment questions ("How to treat X", "treatment for X", "cure for X"):'',
     ''MATCH (dtr:DiseaseTreatmentRelationship)-[:FOR_DISEASE]->(d:Disease), '',
     ''      (dtr)-[:FOR_TREATMENT]->(t:Treatment)'',
     ''WHERE toLower(d.name) CONTAINS toLower("condition_name")'',
     ''RETURN d.name as condition, collect(t.name) as treatments'',
     ''LIMIT 5'']\<close>

definition diagnostic_pattern :: string where
  \<open>diagnostic_pattern = lines_text
    [''For diagnostic questions ("What could cause X", "diseases with X symptom", "conditions with X"):'',
     ''MATCH (dsr:DiseaseSymptomRelationship)-[:FOR_DISEASE]->(d:Disease), '',
     ''      (dsr)-[:FOR_SYMPTOM]->(s:Symptom)'',
     ''WHERE toLower(s.name) CONTAINS toLower("symptom_name")'',
     ''RETURN d.name as condition, count(s) as symptom_matches'',
     ''ORDER BY symptom_matches DESC'',
     ''LIMIT 10'']\<close>

definition general_pattern :: string where
  \<open>general_pattern = lines_text
    [''For general condition info ("Tell me about X", "What is X"):'',
     ''MATCH (d:Disease)'',
     ''WHERE toLower(d.name) CONTAINS toLower("condition_name")'',
     ''OPTIONAL MATCH (dsr:DiseaseSymptomRelationship)-[:FOR_DISEASE]->(d), (dsr)-[:FOR_SYMPTOM]->(s:Symptom)'',
     ''OPTIONAL MATCH (dtr:DiseaseTreatmentRelationship)-[:FOR_DISEASE]->(d), (dtr)-[:FOR_TREATMENT]->(t:Treatment)'',
     ''RETURN d.name as condition, collect(DISTINCT s.name) as symptoms, collect(DISTINCT t.name) as treatments'',
     ''LIMIT 5'']\<close>

definition template_tail :: string where
  "template_tail =
     ''\<newline>'' @ ''\<newline>'' @ ''Generate ONLY the Cypher query without any explanation:''"

definition ADVANCED_CYPHER_TEMPLATE :: string where
  "ADVANCED_CYPHER_TEMPLATE =
     template_head @ ''{schema}'' @ template_structure @
     symptoms_pattern @ ''\<newline>'' @
     treatment_pattern @ ''\<newline>'' @
     diagnostic_pattern @ ''\<newline>'' @
     general_pattern @ ''\<newline>'' @
     ''Question: '' @ ''{question}'' @ template_tail"

definition QA_TEMPLATE :: string where
  "QA_TEMPLATE =
     lines_text
       [''You are a helpful medical assistant. Based on the following information from a medical knowledge graph, provide a clear and helpful response to the patient'' @ [CHR 0x27] @ ''s question.'',
        '''',
        ''Context from knowledge graph:'',
        ''{context}'',
        '''',
        ''Question: {question}'',
        '''',
        ''Please provide a response as if you are talking to a patient. Be empathetic, clear, and always remind them to consult with healthcare professionals for proper diagnosis and treatment.'',
        ''''] @
     ''Answer:''"

subsection \<open>The class \<^verbatim>\<open>MedicalQueryHelper\<close>\<close>

record MedicalQueryHelper =
  helper_graph :: "Neo4jGraph option"


definition treatments_query :: "string \<Rightarrow> string" where
  "treatments_query condition_name =
     ''\<newline>'' @
     ''        MATCH (dtr:DiseaseTreatmentRelationship)-[:FOR_DISEASE]->(d:Disease), \<newline>'' @
     ''              (dtr)-[:FOR_TREATMENT]->(t:Treatment)\<newline>'' @
     ''        WHERE toLower(d.name) CONTAINS toLower('' @ [CHR 0x27] @ condition_name @ [CHR 0x27] @ '')\<newline>'' @
     ''        RETURN d.name as condition, collect(t.name) as treatments\<newline>'' @
     ''        ''"


text \<open>\<^verbatim>\<open>self.graph.query(query)\<close>, and the result returned as it is.\<close>

definition helper_run :: "env \<Rightarrow> MedicalQueryHelper \<Rightarrow> string \<Rightarrow> event list \<times> (exn + pyval)" where
  "helper_run w self query =
     (case helper_graph self of
        None \<Rightarrow> ([], Inl (no_attribute ''NoneType'' ''query''))
      | Some g \<Rightarrow> ([Query g query], graph_query w g query))"


definition get_treatments_for_condition ::
    "env \<Rightarrow> MedicalQueryHelper \<Rightarrow> string \<Rightarrow> event list \<times> (exn + pyval)" where
  "get_treatments_for_condition w self condition_name =
     helper_run w self (treatments_query condition_name)"


definition create_medical_query_helper :: "Neo4jGraph option \<Rightarrow> event list \<times> MedicalQueryHelper" where
  "create_medical_query_helper g =
     ([prt (check_mark @ '' Helper functions created for medical queries!'')],
      \<lparr>helper_graph = g\<rparr>)"

subsection \<open>The class \<^verbatim>\<open>OptimizedMedicalChain\<close>\<close>

record OptimizedMedicalChain =
  omc_llm :: "AzureChatOpenAI option"
  omc_graph :: "Neo4jGraph option"
  optimized_chain :: "GraphCypherQAChain option"
  optimized_chain_verbose :: "GraphCypherQAChain option"

text \<open>The chain that \<^verbatim>\<open>_setup_chains\<close> asks for, quiet (\<open>v = False\<close>) or verbose.\<close>

definition advanced_chain :: "bool \<Rightarrow> OptimizedMedicalChain \<Rightarrow> GraphCypherQAChain" where
  "advanced_chain v self =
     \<lparr>from_package = langchain_neo4j, chain_llm = omc_llm self, chain_graph = omc_graph self,
      verbose = v, allow_dangerous_requests = True,
      cypher_prompt = Some \<lparr>input_variables = [''schema'', ''question''],
                             template = ADVANCED_CYPHER_TEMPLATE\<rparr>,
      qa_prompt = Some \<lparr>input_variables = [''context'', ''question''],
                         template = QA_TEMPLATE\<rparr>,
      return_intermediate_steps = True\<rparr>"

text \<open>The handler of \<^verbatim>\<open>_setup_chains\<close>, and the method.\<close>

definition setup_chains_except ::
    "event list \<Rightarrow> OptimizedMedicalChain \<Rightarrow> exn \<Rightarrow> event list \<times> OptimizedMedicalChain \<times> exn option" where
  "setup_chains_except t self e =
     (if is_Exception e then
        (t @ [prt (''Error setting up optimized chains: '' @ str_of_exn e)],
         self\<lparr>optimized_chain := None, optimized_chain_verbose := None\<rparr>, None)
      else (t, self, Some e))"

definition setup_chains :: "env \<Rightarrow> OptimizedMedicalChain \<Rightarrow> event list \<times> OptimizedMedicalChain \<times> exn option" where
  "setup_chains w self =
     (let c = advanced_chain False self in
      case from_llm w c of
        Some e \<Rightarrow> setup_chains_except [FromLlm c] self e
      | None \<Rightarrow>
          let self' = self\<lparr>optimized_chain := Some c\<rparr>;
              cv = advanced_chain True self'
          in case from_llm w cv of
               Some e \<Rightarrow> setup_chains_except [FromLlm c, FromLlm cv] self' e
             | None \<Rightarrow>
                 ([FromLlm c, FromLlm cv,
                   prt (check_mark @ '' Advanced templates and chains created!'')],
                  self'\<lparr>optimized_chain_verbose := Some cv\<rparr>, None))"

text \<open>\<^verbatim>\<open>__init__\<close>: an exception that leaves it leaves no object.\<close>

definition OptimizedMedicalChain_init ::
    "env \<Rightarrow> AzureChatOpenAI option \<Rightarrow> Neo4jGraph option \<Rightarrow> event list \<times> (exn + OptimizedMedicalChain)" where
  "OptimizedMedicalChain_init w l g =
     (case setup_chains w \<lparr>omc_llm = l, omc_graph = g, optimized_chain = None,
                            optimized_chain_verbose = None\<rparr> of
        (t, self, None) \<Rightarrow> (t, Inr self)
      | (t, self, Some e) \<Rightarrow> (t, Inl e))"

definition is_available :: "OptimizedMedicalChain \<Rightarrow> bool" where
  "is_available self = (optimized_chain self \<noteq> None)"

definition disclaimer :: string where
  "disclaimer = warning_sign @ ''  Always consult healthcare professionals for medical advice.''"

definition ask_medical_question_clean ::
    "env \<Rightarrow> OptimizedMedicalChain \<Rightarrow> string \<Rightarrow> bool \<Rightarrow> event list \<times> (exn + pyval)" where
  "ask_medical_question_clean w self question show_cypher =
     (case optimized_chain self of
        None \<Rightarrow> ([], Inl (ValueError ''Optimized chains not available. Check setup.''))
      | Some c \<Rightarrow>
          let chain = (case optimized_chain_verbose self of Some cv \<Rightarrow> cv | None \<Rightarrow> c)
          in case chain_invoke w chain question of
               Inl e \<Rightarrow> ([Invoke chain question], Inl e)
             | Inr result \<Rightarrow>
                 let t = [Invoke chain question,
                          prt (''\<newline>'' @ replicate 60 CHR ''=''),
                          prt (stethoscope @ '' MEDICAL ASSISTANT RESPONSE''),
                          prt (replicate 60 CHR ''=''),
                          prt (clipboard @ '' Question: '' @ question)]
                 in case subscript result ''result'' of
                      Inl e \<Rightarrow> (t, Inl e)
                    | Inr answer \<Rightarrow>
                        (t @ [Print [Lit (light_bulb @ '' Answer: ''), Val answer],
                              prt (replicate 60 CHR ''=''),
                              prt disclaimer,
                              prt (replicate 60 CHR ''='')],
                         Inr result))"

definition create_optimized_chain ::
    "env \<Rightarrow> AzureChatOpenAI option \<Rightarrow> Neo4jGraph option \<Rightarrow> event list \<times> (exn + OptimizedMedicalChain)" where
  "create_optimized_chain w l g =
     (case OptimizedMedicalChain_init w l g of
        (t, Inl e) \<Rightarrow> (t, Inl e)
      | (t, Inr chain) \<Rightarrow>
          (t @ [if is_available chain
                then prt (rocket @ '' Improved medical AI assistant chain created!'')
                else prt (warning_sign @ '' Optimized chain setup failed, using basic functionality.'')],
           Inr chain))"

section \<open>\<^verbatim>\<open>main.py\<close>: the chat loop of \<^verbatim>\<open>main\<close>\<close>

text \<open>
  What arrives on standard input while \<^verbatim>\<open>input\<close> waits: a line, or Ctrl+C. When nothing is
  left, \<^verbatim>\<open>input\<close> raises \<^verbatim>\<open>EOFError\<close>.
\<close>

datatype stdin = Line string | CtrlC

text \<open>
  The inner \<^verbatim>\<open>try\<close> of the loop: the question goes to the optimized chain when that is
  available and to \<^verbatim>\<open>test_basic_query\<close> otherwise, and an \<^verbatim>\<open>Exception\<close> of either is
  printed. The result is the exception that leaves the statement, if any.
\<close>

definition process_question ::
    "env \<Rightarrow> MedicalRAGSystem \<Rightarrow> OptimizedMedicalChain \<Rightarrow> string \<Rightarrow> event list \<times> exn option" where
  "process_question w medical_rag opt_chain user_question =
     (case (if is_available opt_chain
            then ask_medical_question_clean w opt_chain user_question True
            else test_basic_query w medical_rag user_question) of
        (t, Inr result) \<Rightarrow> (t, None)
      | (t, Inl e) \<Rightarrow>
          if is_Exception e then
            (t @ [prt (cross_mark @ '' Error processing question: '' @ str_of_exn e)], None)
          else (t, Some e))"

definition input_prompt :: string where
  "input_prompt = test_tube @ '' Enter your medical question: ''"

text \<open>
  The \<^verbatim>\<open>while True\<close> loop. It has no exit of its own: it ends with the exception that
  leaves it.
\<close>

fun chat_loop :: "env \<Rightarrow> MedicalRAGSystem \<Rightarrow> OptimizedMedicalChain \<Rightarrow> stdin list \<Rightarrow> event list \<times> exn" where
  "chat_loop w medical_rag opt_chain [] =
     ([prt (''\<newline>'' @ replicate 30 CHR ''-''), Input input_prompt], EOFError)"
| "chat_loop w medical_rag opt_chain (CtrlC # rest) =
     ([prt (''\<newline>'' @ replicate 30 CHR ''-''), Input input_prompt], KeyboardInterrupt)"
| "chat_loop w medical_rag opt_chain (Line l # rest) =
     (let user_question = strip l;
          t0 = [prt (''\<newline>'' @ replicate 30 CHR ''-''), Input input_prompt]
      in if user_question = [] then
           after (t0 @ [prt (cross_mark @ '' Please enter a valid question.'')])
             (chat_loop w medical_rag opt_chain rest)
         else
           let t1 = t0 @ [prt (''\<newline>'' @ robot @ '' Processing: '' @ user_question),
                          prt (replicate 50 CHR ''-'')]
           in case process_question w medical_rag opt_chain user_question of
                (t, Some e) \<Rightarrow> (t1 @ t, e)
              | (t, None) \<Rightarrow> after (t1 @ t) (chat_loop w medical_rag opt_chain rest))"

text \<open>
  \<^verbatim>\<open>main\<close> from the banner on: the loop inside its \<^verbatim>\<open>try\<close>, the farewell on
  \<^verbatim>\<open>KeyboardInterrupt\<close>, and the system returned.
\<close>

definition chat_banner :: "event list" where
  "chat_banner =
     [prt (''\<newline>'' @ stethoscope @ '' Medical RAG Chat System''),
      prt (replicate 50 CHR ''=''),
      prt ''Ask medical questions and get answers from the knowledge graph.'',
      prt ''Press Ctrl+C to exit the chat.'',
      prt disclaimer,
      prt (replicate 50 CHR ''='')]"

definition main_chat ::
    "env \<Rightarrow> MedicalRAGSystem \<Rightarrow> OptimizedMedicalChain \<Rightarrow> stdin list \<Rightarrow> event list \<times> (exn + MedicalRAGSystem)" where
  "main_chat w medical_rag opt_chain inputs =
     (case chat_loop w medical_rag opt_chain inputs of
        (t, KeyboardInterrupt) \<Rightarrow>
          (chat_banner @ t @
             [prt (''\<newline>'' @ ''\<newline>'' @ waving_hand @ '' Thank you for using the Medical RAG System!''),
              prt ''Stay healthy and always consult healthcare professionals!''],
           Inr medical_rag)
      | (t, e) \<Rightarrow> (chat_banner @ t, Inl e))"

section \<open>Concrete systems and environments\<close>

text \<open>
  A connected system, as \<^verbatim>\<open>setup_connections\<close> leaves it, and an environment in which every
  import and construction succeeds, the model answers with a query and the database with
  one record.
\<close>

definition demo_graph :: Neo4jGraph where
  "demo_graph =
     \<lparr>url = Some ''bolt://localhost:7687'', username = Some ''neo4j'',
      password = Some ''secret'', database = Some ''medical''\<rparr>"

definition demo_llm :: AzureChatOpenAI where
  "demo_llm =
     \<lparr>azure_endpoint = Some ''https://example.openai.azure.com/'', api_key = Some ''key'',
      azure_deployment = Some ''gpt-4o'', api_version = Some ''2024-02-01'',
      max_tokens = 1000\<rparr>"

definition connected :: MedicalRAGSystem where
  "connected = MedicalRAGSystem_init\<lparr>graph := Some demo_graph, llm := Some demo_llm\<rparr>"

definition ascii_lower :: "string \<Rightarrow> string" where
  "ascii_lower =
     map (\<lambda>c. case map_of (zip ''ABCDEFGHIJKLMNOPQRSTUVWXYZ'' ''abcdefghijklmnopqrstuvwxyz'') c of
                 None \<Rightarrow> c | Some d \<Rightarrow> d)"

definition demo_question :: string where
  "demo_question = ''What are the symptoms of diabetes?''"

definition demo_rows :: pyval where
  "demo_rows =
     PList [PDict [(''condition'', PStr ''Diabetes''),
                   (''symptoms'', PList [PStr ''thirst'', PStr ''fatigue''])]]"

definition demo_output :: pyval where
  "demo_output =
     PDict [(''query'', PStr demo_question),
            (''result'', PStr ''Thirst and fatigue are common symptoms of diabetes.''),
            (''intermediate_steps'', PList [])]"

definition world :: env where
  "world =
     \<lparr>import_GraphCypherQAChain = (\<lambda>p. None),
      from_llm = (\<lambda>c. None),
      chain_invoke = (\<lambda>c q. Inr demo_output),
      llm_invoke = (\<lambda>l p. Inr ''  MATCH (d:Disease) RETURN d.name LIMIT 5\<newline>''),
      graph_query = (\<lambda>g q. Inr demo_rows),
      graph_schema = (\<lambda>g. ''Node properties: Disease {name: STRING}''),
      graph_get_schema = (\<lambda>g. ''Node properties: Disease {name: STRING}''),
      str_lower = ascii_lower\<rparr>"

definition syntax_error :: exn where
  "syntax_error = OtherException ''CypherSyntaxError'' ''Invalid input near RETURN''"

definition validation_error :: exn where
  "validation_error = OtherException ''ValidationError'' ''1 validation error for GraphCypherQAChain''"

text \<open>The database rejects every query.\<close>

definition world_query_fails :: env where
  "world_query_fails = world\<lparr>graph_query := (\<lambda>g q. Inl syntax_error)\<rparr>"

text \<open>Every chain raises when it is invoked, as it does when its query is rejected.\<close>

definition world_invoke_fails :: env where
  "world_invoke_fails = world\<lparr>chain_invoke := (\<lambda>c q. Inl syntax_error)\<rparr>"

text \<open>The chain class of \<^verbatim>\<open>langchain_neo4j\<close> cannot be built; that of the community package can.\<close>

definition world_neo4j_broken :: env where
  "world_neo4j_broken =
     world\<lparr>from_llm := (\<lambda>c. if from_package c = langchain_neo4j then Some validation_error else None)\<rparr>"

text \<open>Only chains with prompts of their own cannot be built.\<close>

definition world_no_custom_prompt :: env where
  "world_no_custom_prompt =
     world\<lparr>from_llm := (\<lambda>c. if cypher_prompt c = None then None else Some validation_error)\<rparr>"

text \<open>\<^verbatim>\<open>langchain_neo4j\<close> has no chain class; the community package has one, that works or not.\<close>

definition world_no_neo4j_class :: env where
  "world_no_neo4j_class =
     world\<lparr>import_GraphCypherQAChain :=
             (\<lambda>p. if p = langchain_neo4j
                  then Some (ImportError ''cannot import name GraphCypherQAChain'') else None)\<rparr>"

definition world_no_library :: env where
  "world_no_library = world_no_neo4j_class\<lparr>from_llm := (\<lambda>c. Some validation_error)\<rparr>"

text \<open>The systems and chain holders that the environments above lead to.\<close>

definition rag_library :: MedicalRAGSystem where
  "rag_library = connected\<lparr>graph_qa_chain := Some (LibraryChain (basic_chain langchain_neo4j connected))\<rparr>"

definition rag_community :: MedicalRAGSystem where
  "rag_community = connected\<lparr>graph_qa_chain := Some (LibraryChain (basic_chain langchain_community connected))\<rparr>"

definition rag_manual :: MedicalRAGSystem where
  "rag_manual = connected\<lparr>graph_qa_chain := Some SimpleGraphQA\<rparr>"

definition omc_fresh :: OptimizedMedicalChain where
  "omc_fresh =
     \<lparr>omc_llm = Some demo_llm, omc_graph = Some demo_graph, optimized_chain = None,
      optimized_chain_verbose = None\<rparr>"

definition omc_ready :: OptimizedMedicalChain where
  "omc_ready =
     omc_fresh\<lparr>optimized_chain := Some (advanced_chain False omc_fresh),
               optimized_chain_verbose := Some (advanced_chain True omc_fresh)\<rparr>"

text \<open>The events that go over the network.\<close>

fun is_network_call :: "event \<Rightarrow> bool" where
  "is_network_call (Invoke c q) = True"
| "is_network_call (LlmInvoke l p) = True"
| "is_network_call (Query g q) = True"
| "is_network_call _ = False"

text \<open>Whether an outcome is a raised \<^verbatim>\<open>ConnectionError\<close>.\<close>

fun raises_ConnectionError :: "exn + 'a \<Rightarrow> bool" where
  "raises_ConnectionError (Inl (ConnectionError m)) = True"
| "raises_ConnectionError _ = False"

text \<open>
  The exception with which the first attempt of \<^verbatim>\<open>setup_rag_system\<close> fails, if it fails: that
  of the import of the chain class from \<^verbatim>\<open>langchain_neo4j\<close>, or else that of the construction.
\<close>

definition preferred_failure :: "env \<Rightarrow> MedicalRAGSystem \<Rightarrow> exn option" where
  "preferred_failure w self =
     (case import_GraphCypherQAChain w langchain_neo4j of
        Some e \<Rightarrow> Some e
      | None \<Rightarrow> from_llm w (basic_chain langchain_neo4j self))"





section \<open>The schema accessor\<close>

text \<open>
  C5, as stated, at a system without a connection: \<^verbatim>\<open>get_schema\<close> fails there, but not with
  a \<^verbatim>\<open>ConnectionError\<close>.
\<close>

theorem get_schema_not_connected_counterexample:
  "graph MedicalRAGSystem_init = None \<and>
   \<not> raises_ConnectionError (get_schema world MedicalRAGSystem_init)"
  by (simp add: get_schema_def MedicalRAGSystem_init_def)

text \<open>
  C5, amended: without a database connection \<^verbatim>\<open>get_schema\<close> raises the \<^verbatim>\<open>ValueError\<close> with
  the message below; with a connection it returns the schema description that the
  connection holds.
\<close>

theorem get_schema_outcome:
  "(graph self = None \<longrightarrow>
      get_schema w self =
        Inl (ValueError ''Graph connection not established. Call setup_connections() first.'')) \<and>
   (\<forall>g. graph self = Some g \<longrightarrow> get_schema w self = Inr (graph_schema w g))"
  by (simp add: get_schema_def)

text \<open>C5, amended, at the fresh system and at the connected one.\<close>

theorem get_schema_outcome_witness:
  "graph MedicalRAGSystem_init = None \<and>
   get_schema world MedicalRAGSystem_init =
     Inl (ValueError ''Graph connection not established. Call setup_connections() first.'') \<and>
   graph connected = Some demo_graph \<and>
   get_schema world connected = Inr ''Node properties: Disease {name: STRING}''"
proof -
  have a: "graph MedicalRAGSystem_init = None"
    by (simp add: MedicalRAGSystem_init_def)
  have b: "graph connected = Some demo_graph"
    by (simp add: connected_def)
  have c: "graph_schema world demo_graph = ''Node properties: Disease {name: STRING}''"
    by (simp add: world_def)
  from get_schema_outcome [of MedicalRAGSystem_init world] a
  have "get_schema world MedicalRAGSystem_init =
     Inl (ValueError ''Graph connection not established. Call setup_connections() first.'')"
    by blast
  moreover from get_schema_outcome [of connected world] b c
  have "get_schema world connected = Inr ''Node properties: Disease {name: STRING}''"
    by simp
  ultimately show ?thesis using a b by simp
qed

section \<open>Empty input lines\<close>

text \<open>
  C6: a line that is empty after stripping is answered with the request for a valid
  question and nothing else: what the loop prints and does for it holds no call of a chain,
  of the model or of the database, and the loop goes on with the next prompt.
\<close>

theorem empty_line_rejected:
  assumes "strip l = []"
  shows "chat_loop w medical_rag opt_chain (Line l # rest) =
           after [prt (''\<newline>'' @ replicate 30 CHR ''-''), Input input_prompt,
                  prt (cross_mark @ '' Please enter a valid question.'')]
             (chat_loop w medical_rag opt_chain rest) \<and>
         filter is_network_call
           [prt (''\<newline>'' @ replicate 30 CHR ''-''), Input input_prompt,
            prt (cross_mark @ '' Please enter a valid question.'')] = []"
  using assms by (simp add: prt_def)

text \<open>C6 at a line of three blanks, followed by Ctrl+C.\<close>

theorem empty_line_rejected_witness:
  "strip ''   '' = [] \<and>
   chat_loop world rag_library omc_ready [Line ''   '', CtrlC] =
     ([prt (''\<newline>'' @ replicate 30 CHR ''-''), Input input_prompt,
       prt (cross_mark @ '' Please enter a valid question.''),
       prt (''\<newline>'' @ replicate 30 CHR ''-''), Input input_prompt], KeyboardInterrupt)"
proof -
  have h: "strip ''   '' = []" by code_simp
  from empty_line_rejected [OF h, of world rag_library omc_ready "[CtrlC]"]
  show ?thesis using h by simp
qed

section \<open>The manual single-prompt implementation\<close>

text \<open>
  C7: whatever text the language model returns, \<^verbatim>\<open>simple_graph_qa\<close> strips it and sends
  all that remains to the database as the query: the stripped response is what it prints
  and what it executes, and its result depends on the response only through the outcome of
  that execution. There is no branch that inspects or rejects the response.
\<close>

theorem manual_query_is_stripped_response:
  assumes "graph self = Some g" and "llm self = Some l"
    and "llm_invoke w l (simple_cypher_prompt (graph_get_schema w g) question) = Inr response"
  shows "simple_graph_qa w self question =
           ([LlmInvoke l (simple_cypher_prompt (graph_get_schema w g) question),
             prt (''Generated Cypher: '' @ strip response),
             Query g (strip response)],
            (case graph_query w g (strip response) of
               Inr result \<Rightarrow> Inr result
             | Inl query_error \<Rightarrow>
                 if is_Exception query_error
                 then Inr (PStr (''Query execution error: '' @ str_of_exn query_error))
                 else Inl query_error))"
  using assms by (simp add: simple_graph_qa_def Let_def split: sum.splits)

text \<open>C7 at a response with blanks in front and a newline behind.\<close>

theorem manual_query_is_stripped_response_witness:
  "simple_graph_qa world connected demo_question =
     ([LlmInvoke demo_llm (simple_cypher_prompt ''Node properties: Disease {name: STRING}'' demo_question),
       prt ''Generated Cypher: MATCH (d:Disease) RETURN d.name LIMIT 5'',
       Query demo_graph ''MATCH (d:Disease) RETURN d.name LIMIT 5''],
      Inr demo_rows)"
proof -
  have g: "graph connected = Some demo_graph" and l: "llm connected = Some demo_llm"
    by (simp_all add: connected_def)
  have s: "graph_get_schema world demo_graph = ''Node properties: Disease {name: STRING}''"
    by (simp add: world_def)
  have r: "llm_invoke world demo_llm (simple_cypher_prompt (graph_get_schema world demo_graph) demo_question)
             = Inr ''  MATCH (d:Disease) RETURN d.name LIMIT 5\<newline>''"
    by (simp add: world_def)
  have st: "strip ''  MATCH (d:Disease) RETURN d.name LIMIT 5\<newline>'' = ''MATCH (d:Disease) RETURN d.name LIMIT 5''"
    by code_simp
  have q: "graph_query world demo_graph ''MATCH (d:Disease) RETURN d.name LIMIT 5'' = Inr demo_rows"
    by (simp add: world_def)
  from manual_query_is_stripped_response [OF g l r] show ?thesis
    by (simp add: st s q)
qed

text \<open>
  C9: when the database raises an \<^verbatim>\<open>Exception\<close> on the query, \<^verbatim>\<open>simple_graph_qa\<close> does not
  raise: it returns the text \<open>Query execution error: \<close> followed by the text of the
  database's error.
\<close>

theorem query_failure_becomes_message:
  assumes "graph self = Some g" and "llm self = Some l"
    and "llm_invoke w l (simple_cypher_prompt (graph_get_schema w g) question) = Inr response"
    and "graph_query w g (strip response) = Inl query_error"
    and "is_Exception query_error"
  shows "snd (simple_graph_qa w self question) =
           Inr (PStr (''Query execution error: '' @ str_of_exn query_error))"
  using assms by (simp add: simple_graph_qa_def Let_def)

text \<open>C9 at a database that rejects the query with a syntax error.\<close>

theorem query_failure_becomes_message_witness:
  "snd (simple_graph_qa world_query_fails connected demo_question) =
     Inr (PStr ''Query execution error: Invalid input near RETURN'')"
proof -
  have g: "graph connected = Some demo_graph" and l: "llm connected = Some demo_llm"
    by (simp_all add: connected_def)
  have r: "llm_invoke world_query_fails demo_llm
             (simple_cypher_prompt (graph_get_schema world_query_fails demo_graph) demo_question)
             = Inr ''  MATCH (d:Disease) RETURN d.name LIMIT 5\<newline>''"
    by (simp add: world_query_fails_def world_def)
  have q: "graph_query world_query_fails demo_graph (strip ''  MATCH (d:Disease) RETURN d.name LIMIT 5\<newline>'') = Inl syntax_error"
    by (simp add: world_query_fails_def world_def)
  have e: "is_Exception syntax_error"
    by (simp add: syntax_error_def)
  from query_failure_becomes_message [OF g l r q e] show ?thesis
    by (simp add: syntax_error_def)
qed

section \<open>The optimized chains\<close>

text \<open>
  C10: whenever the construction of an \<^verbatim>\<open>OptimizedMedicalChain\<close> returns an object, either
  both of its chains are set or neither is; and when \<^verbatim>\<open>is_available\<close> holds,
  \<^verbatim>\<open>ask_medical_question_clean\<close> passes its guard and starts by invoking the verbose chain,
  in any environment.
\<close>

theorem optimized_chains_set_together:
  assumes "OptimizedMedicalChain_init w l g = (t, Inr self)"
  shows "(optimized_chain self = None) = (optimized_chain_verbose self = None) \<and>
         (is_available self \<longrightarrow>
            (\<exists>cv t'. optimized_chain_verbose self = Some cv \<and>
                  fst (ask_medical_question_clean w' self question show_cypher) =
                    Invoke cv question # t'))"
  using assms
  by (auto simp add: OptimizedMedicalChain_init_def setup_chains_def setup_chains_except_def
        is_available_def ask_medical_question_clean_def Let_def
      split: option.splits if_splits sum.splits)

text \<open>C10 at the environment in which both constructions succeed.\<close>

theorem optimized_chains_set_together_witness:
  "OptimizedMedicalChain_init world (Some demo_llm) (Some demo_graph) =
     ([FromLlm (advanced_chain False omc_fresh), FromLlm (advanced_chain True omc_fresh),
       prt (check_mark @ '' Advanced templates and chains created!'')], Inr omc_ready) \<and>
   optimized_chain omc_ready \<noteq> None \<and> optimized_chain_verbose omc_ready \<noteq> None \<and>
   is_available omc_ready \<and>
   fst (ask_medical_question_clean world_invoke_fails omc_ready demo_question True) =
     [Invoke (advanced_chain True omc_fresh) demo_question]"
proof -
  have i: "OptimizedMedicalChain_init world (Some demo_llm) (Some demo_graph) =
     ([FromLlm (advanced_chain False omc_fresh), FromLlm (advanced_chain True omc_fresh),
       prt (check_mark @ '' Advanced templates and chains created!'')], Inr omc_ready)"
    by (simp add: OptimizedMedicalChain_init_def setup_chains_def world_def omc_ready_def
          omc_fresh_def advanced_chain_def Let_def)
  have a: "is_available omc_ready"
    by (simp add: is_available_def omc_ready_def)
  have r: "fst (ask_medical_question_clean world_invoke_fails omc_ready demo_question True) =
     [Invoke (advanced_chain True omc_fresh) demo_question]"
    by (simp add: ask_medical_question_clean_def omc_ready_def world_invoke_fails_def world_def)
  from optimized_chains_set_together [OF i, of world_invoke_fails demo_question True] a
  have "optimized_chain omc_ready \<noteq> None \<and> optimized_chain_verbose omc_ready \<noteq> None"
    by auto
  with i a r show ?thesis by simp
qed

section \<open>Initialization of the structured-query step\<close>

text \<open>
  C2, as stated, at an environment in which the construction of the preferred chain raises
  a validation error and the alternate chain could be imported and built: the alternate is
  neither imported nor built, and the manual implementation is adopted.
\<close>
theorem alternate_skipped_counterexample:
  "preferred_failure world_neo4j_broken connected = Some validation_error \<and>
   import_GraphCypherQAChain world_neo4j_broken langchain_community = None \<and>
   from_llm world_neo4j_broken (basic_chain langchain_community connected) = None \<and>
   setup_rag_system world_neo4j_broken connected =
     ([Import langchain_neo4j,
       prt ''Setting up knowledge graph RAG system with langchain_neo4j...'',
       FromLlm (basic_chain langchain_neo4j connected),
       prt ''Unexpected error: 1 validation error for GraphCypherQAChain'',
       prt ''Setting up simple function-based approach...'',
       prt (check_mark @ '' Simple function-based Graph QA setup complete!'')],
      rag_manual, None)"
  by (simp add: preferred_failure_def world_neo4j_broken_def world_def basic_chain_def
        setup_rag_system_def setup_rag_try_def setup_simple_graph_qa_def connected_def
        MedicalRAGSystem_init_def rag_manual_def validation_error_def Let_def)
text \<open>
  C2, amended: on a connected system \<^verbatim>\<open>setup_rag_system\<close> tries the preferred chain of
  \<^verbatim>\<open>langchain_neo4j\<close> first and adopts it when it succeeds. The alternate chain of the
  community package is tried only when the preferred attempt fails with an
  \<^verbatim>\<open>ImportError\<close>; it is adopted when it can be imported and built, and the manual
  implementation is adopted when its construction raises an \<^verbatim>\<open>Exception\<close>. When the
  preferred attempt fails with any other \<^verbatim>\<open>Exception\<close>, the manual implementation is
  adopted at once and the alternate is not tried.
\<close>
theorem initialization_order:
  assumes "graph self \<noteq> None" and "llm self \<noteq> None"
  shows
   "(\<exists>t. fst (setup_rag_system w self) = Import langchain_neo4j # t) \<and>
    (preferred_failure w self = None \<longrightarrow>
       snd (setup_rag_system w self) =
         (self\<lparr>graph_qa_chain := Some (LibraryChain (basic_chain langchain_neo4j self))\<rparr>, None) \<and>
       Import langchain_community \<notin> set (fst (setup_rag_system w self))) \<and>
    (\<forall>e. preferred_failure w self = Some e \<and> is_ImportError e \<and>
         import_GraphCypherQAChain w langchain_community = None \<longrightarrow>
       (from_llm w (basic_chain langchain_community self) = None \<longrightarrow>
          snd (setup_rag_system w self) =
            (self\<lparr>graph_qa_chain := Some (LibraryChain (basic_chain langchain_community self))\<rparr>, None)) \<and>
       (\<forall>e'. from_llm w (basic_chain langchain_community self) = Some e' \<and> is_Exception e' \<longrightarrow>
          snd (setup_rag_system w self) = (self\<lparr>graph_qa_chain := Some SimpleGraphQA\<rparr>, None))) \<and>
    (\<forall>e. preferred_failure w self = Some e \<and> \<not> is_ImportError e \<and> is_Exception e \<longrightarrow>
       snd (setup_rag_system w self) = (self\<lparr>graph_qa_chain := Some SimpleGraphQA\<rparr>, None) \<and>
       Import langchain_community \<notin> set (fst (setup_rag_system w self)) \<and>
       FromLlm (basic_chain langchain_community self) \<notin> set (fst (setup_rag_system w self)))"
  using assms
  by (auto simp add: setup_rag_system_def setup_rag_try_def setup_rag_community_def
        setup_simple_graph_qa_def preferred_failure_def basic_chain_def prt_def Let_def
      split: option.splits)
text \<open>C2, amended, at four environments, one for each way through the method.\<close>
theorem initialization_order_witness:
  "graph connected \<noteq> None \<and> llm connected \<noteq> None \<and>
   preferred_failure world connected = None \<and>
   snd (setup_rag_system world connected) = (rag_library, None) \<and>
   preferred_failure world_no_neo4j_class connected =
     Some (ImportError ''cannot import name GraphCypherQAChain'') \<and>
   snd (setup_rag_system world_no_neo4j_class connected) = (rag_community, None) \<and>
   from_llm world_no_library (basic_chain langchain_community connected) = Some validation_error \<and>
   snd (setup_rag_system world_no_library connected) = (rag_manual, None) \<and>
   preferred_failure world_neo4j_broken connected = Some validation_error \<and>
   snd (setup_rag_system world_neo4j_broken connected) = (rag_manual, None) \<and>
   Import langchain_community \<notin> set (fst (setup_rag_system world_neo4j_broken connected))"
proof -
  have g: "graph connected \<noteq> None" and l: "llm connected \<noteq> None"
    by (simp_all add: connected_def)
  note order = initialization_order [OF g l]
  have p1: "preferred_failure world connected = None"
    by (simp add: preferred_failure_def world_def)
  have p2: "preferred_failure world_no_neo4j_class connected =
              Some (ImportError ''cannot import name GraphCypherQAChain'')"
    by (simp add: preferred_failure_def world_no_neo4j_class_def world_def)
  have i2: "import_GraphCypherQAChain world_no_neo4j_class langchain_community = None"
    and f2: "from_llm world_no_neo4j_class (basic_chain langchain_community connected) = None"
    by (simp_all add: world_no_neo4j_class_def world_def)
  have p3: "preferred_failure world_no_library connected =
              Some (ImportError ''cannot import name GraphCypherQAChain'')"
    by (simp add: preferred_failure_def world_no_library_def world_no_neo4j_class_def world_def)
  have i3: "import_GraphCypherQAChain world_no_library langchain_community = None"
    and f3: "from_llm world_no_library (basic_chain langchain_community connected) = Some validation_error"
    by (simp_all add: world_no_library_def world_no_neo4j_class_def world_def)
  have p4: "preferred_failure world_neo4j_broken connected = Some validation_error"
    by (simp add: preferred_failure_def world_neo4j_broken_def world_def basic_chain_def)
  have v: "is_Exception validation_error" "\<not> is_ImportError validation_error"
    by (simp_all add: validation_error_def)
  have m: "is_ImportError (ImportError ''cannot import name GraphCypherQAChain'')"
    by simp
  from order [of world] p1
  have r1: "snd (setup_rag_system world connected) = (rag_library, None)"
    by (simp add: rag_library_def)
  from order [of world_no_neo4j_class] p2 m i2 f2
  have r2: "snd (setup_rag_system world_no_neo4j_class connected) = (rag_community, None)"
    by (simp add: rag_community_def)
  from order [of world_no_library] p3 m i3 f3 v
  have r3: "snd (setup_rag_system world_no_library connected) = (rag_manual, None)"
    by (simp add: rag_manual_def)
  from order [of world_neo4j_broken] p4 v
  have r4: "snd (setup_rag_system world_neo4j_broken connected) = (rag_manual, None) \<and>
            Import langchain_community \<notin> set (fst (setup_rag_system world_neo4j_broken connected))"
    by (simp add: rag_manual_def)
  from g l p1 r1 p2 r2 f3 r3 p4 r4 show ?thesis by simp
qed

section \<open>The choice between the optimized chain and the fallback\<close>


text \<open>
  C3, evaluated where the code departs from it. First start: the chain class of
  \<^verbatim>\<open>langchain_neo4j\<close> cannot be built, so the system holds the function
  \<^verbatim>\<open>simple_graph_qa\<close> and the optimized chain is unavailable; the question then ends in
  the \<^verbatim>\<open>AttributeError\<close> of calling \<^verbatim>\<open>invoke\<close> on a function, with no answer and no
  disclaimer. Second start: only the chains with prompts of their own cannot be built, so the
  fallback is a library chain; its answer is printed without the disclaimer. The last line
  is the sibling path: the optimized chain prints the disclaimer with its answer.
\<close>
theorem fallback_at_failing_input:
  "snd (setup_rag_system world_neo4j_broken connected) = (rag_manual, None) \<and>
   snd (create_optimized_chain world_neo4j_broken (Some demo_llm) (Some demo_graph)) = Inr omc_fresh \<and>
   \<not> is_available omc_fresh \<and>
   process_question world_neo4j_broken rag_manual omc_fresh demo_question =
     ([prt ''Testing with question: What are the symptoms of diabetes?'',
       prt (replicate 50 CHR ''-''),
       prt (cross_mark @ '' Error processing question: '' @ [CHR 0x27] @ ''function'' @ [CHR 0x27] @
            '' object has no attribute '' @ [CHR 0x27] @ ''invoke'' @ [CHR 0x27])],
      None) \<and>
   snd (setup_rag_system world_no_custom_prompt connected) = (rag_library, None) \<and>
   snd (create_optimized_chain world_no_custom_prompt (Some demo_llm) (Some demo_graph)) = Inr omc_fresh \<and>
   process_question world_no_custom_prompt rag_library omc_fresh demo_question =
     ([prt ''Testing with question: What are the symptoms of diabetes?'',
       prt (replicate 50 CHR ''-''),
       Invoke (basic_chain langchain_neo4j connected) demo_question,
       Print [Lit ''Result:'', Lit '' '', Val demo_output]],
      None) \<and>
   prt disclaimer \<in> set (fst (process_question world rag_library omc_ready demo_question))"
  by (simp add: setup_rag_system_def setup_rag_try_def setup_simple_graph_qa_def
        create_optimized_chain_def OptimizedMedicalChain_init_def setup_chains_def
        setup_chains_except_def advanced_chain_def basic_chain_def
        world_neo4j_broken_def world_no_custom_prompt_def world_def
        connected_def MedicalRAGSystem_init_def rag_manual_def rag_library_def
        omc_fresh_def omc_ready_def is_available_def validation_error_def
        process_question_def test_basic_query_def ask_medical_question_clean_def
        no_attribute_def demo_question_def demo_output_def Let_def)
text \<open>Whatever the environment, the fallback path prints no disclaimer.\<close>
lemma fallback_prints_no_disclaimer:
  "\<not> is_available opt_chain \<Longrightarrow>
   prt disclaimer \<notin> set (fst (process_question w medical_rag opt_chain question))"
  by (auto simp add: process_question_def test_basic_query_def prt_def disclaimer_def
        warning_sign_def cross_mark_def Let_def Cons_replicate_eq
      split: option.splits sum.splits qa_chain.splits)

section \<open>The query patterns and the helper queries\<close>























section \<open>What \<^verbatim>\<open>strip\<close> returns\<close>

text \<open>
  The stripped text is a run of consecutive bytes of the given one, and neither starts nor
  ends with a whitespace character.
\<close>

lemma lstrip_suffix: "suffix (lstrip s) s"
proof (induction s rule: lstrip.induct)
  case (1 s)
  show ?case
  proof (cases "leading_space s = 0")
    case True
    then show ?thesis by (simp add: lstrip.simps [of s])
  next
    case False
    with "1" have "suffix (lstrip (drop (leading_space s) s)) (drop (leading_space s) s)"
      by simp
    moreover have "suffix (drop (leading_space s) s) s"
      by (rule suffix_drop)
    ultimately have "suffix (lstrip (drop (leading_space s) s)) s"
      by (rule suffix_order.trans)
    with False show ?thesis by (simp add: lstrip.simps [of s])
  qed
qed

lemma rstrip_prefix: "prefix (rstrip s) s"
proof (induction s rule: rstrip.induct)
  case (1 s)
  show ?case
  proof (cases "trailing_space s = 0")
    case True
    then show ?thesis by (simp add: rstrip.simps [of s])
  next
    case False
    with "1" have "prefix (rstrip (take (length s - trailing_space s) s))
                     (take (length s - trailing_space s) s)"
      by simp
    moreover have "prefix (take (length s - trailing_space s) s) s"
      by (rule take_is_prefix)
    ultimately have "prefix (rstrip (take (length s - trailing_space s) s)) s"
      by (rule prefix_order.trans)
    with False show ?thesis by (simp add: rstrip.simps [of s])
  qed
qed

lemma lstrip_no_leading_space: "leading_space (lstrip s) = 0"
proof (induction s rule: lstrip.induct)
  case (1 s)
  then show ?case by (cases "leading_space s = 0") (simp_all add: lstrip.simps [of s])
qed

lemma rstrip_no_trailing_space: "trailing_space (rstrip s) = 0"
proof (induction s rule: rstrip.induct)
  case (1 s)
  then show ?case by (cases "trailing_space s = 0") (simp_all add: rstrip.simps [of s])
qed

lemma leading_space_0_iff:
  "leading_space s = 0 \<longleftrightarrow> (\<forall>w \<in> set whitespace. \<not> prefix w s)"
proof (cases "find (\<lambda>w. prefix w s) whitespace")
  case None
  then have "\<forall>w \<in> set whitespace. \<not> prefix w s"
    by (simp add: find_None_iff)
  with None show ?thesis by (simp add: leading_space_def)
next
  case (Some w)
  then have w: "w \<in> set whitespace" "prefix w s"
    by (auto simp add: find_Some_iff)
  have "[] \<notin> set whitespace"
    by (simp add: whitespace_def)
  with w have "length w \<noteq> 0" by auto
  with Some w show ?thesis by (auto simp add: leading_space_def)
qed

lemma leading_space_prefix:
  assumes "prefix t s" and "leading_space s = 0"
  shows "leading_space t = 0"
  using assms prefix_order.trans unfolding leading_space_0_iff by blast

lemma strip_sublist: "sublist (strip s) s"
proof -
  have "prefix (strip s) (lstrip s)"
    unfolding strip_def by (rule rstrip_prefix)
  then have "sublist (strip s) (lstrip s)"
    by (rule prefix_imp_sublist)
  moreover have "sublist (lstrip s) s"
    using lstrip_suffix by (rule suffix_imp_sublist)
  ultimately show ?thesis
    by (rule sublist_order.order.trans)
qed

lemma strip_no_space_left: "leading_space (strip s) = 0 \<and> trailing_space (strip s) = 0"
proof
  have "prefix (strip s) (lstrip s)"
    unfolding strip_def by (rule rstrip_prefix)
  then show "leading_space (strip s) = 0"
    using lstrip_no_leading_space by (rule leading_space_prefix)
  show "trailing_space (strip s) = 0"
    unfolding strip_def by (rule rstrip_no_trailing_space)
qed

end
